theory Spec2Isabelle
  imports Complex_Main
begin

text \<open>
  Two command-line tools are modelled: the serial renamer \<open>ReSerial.py\<close> (the
  classifier \<open>is_sequence_file\<close> and \<open>main\<close>) and the timestamp editor
  \<open>ReTime.py\<close> (\<open>convert_to_timestamp\<close> and \<open>modify_file_times\<close>). Functions keep
  the names of the source; the configuration constants of the renamer are the fields of a
  record. Library and system calls are modelled by what they return and change:
  exceptions are values, the folder and the file system are passed in and returned.
  What the code takes from its surroundings is a parameter: the character tables and the
  limits of the interpreter, the answers of the operating system, the clock.
\<close>

datatype exn = re_error | KeyError | FileNotFoundError | FileExistsError
  | IsADirectoryError | NotADirectoryError | OSError
  | ValueError | OverflowError | RuntimeError

section \<open>Python strings in the renamer\<close>

text \<open>
  The renamer looks into its strings, so a \<open>str\<close> is the list of its code points,
  the integers \<open>ord\<close> gives. \<open>lit\<close> gives the code points of a literal written in
  ASCII.
\<close>

type_synonym pystr = "int list"

definition lit :: "string \<Rightarrow> pystr" where
  "lit s = map of_char s"

text \<open>
  What the renamer takes from the interpreter: the properties of the characters, which
  come from the interpreter's Unicode database, and the limit on the length of a string
  that \<open>int\<close> converts.
\<close>

record python =
  digit_of :: "int \<Rightarrow> nat option"
    \<comment> \<open>the value of a decimal digit (category Nd): what \<open>\d\<close> matches and \<open>int\<close>
        reads\<close>
  isdigit_more :: "int \<Rightarrow> bool"
    \<comment> \<open>the other characters \<open>str.isdigit\<close> accepts, such as the superscript digits\<close>
  isspace :: "int \<Rightarrow> bool"
    \<comment> \<open>the characters \<open>str.strip()\<close> removes\<close>
  ignorecase_eq :: "int \<Rightarrow> int \<Rightarrow> bool"
    \<comment> \<open>whether a character of the subject matches a literal character of the pattern
        under \<open>re.IGNORECASE\<close>\<close>
  max_str_digits :: "int option"
    \<comment> \<open>\<open>sys.get_int_max_str_digits()\<close>: 4300 by default, \<open>None\<close> when there is no
        limit\<close>

definition newline :: int where
  "newline = 10"

definition re_digit :: "python \<Rightarrow> int \<Rightarrow> bool" where
  \<comment> \<open>the class \<open>\d\<close> of a \<open>str\<close> pattern\<close>
  "re_digit py c = (digit_of py c \<noteq> None)"

definition str_isdigit :: "python \<Rightarrow> pystr \<Rightarrow> bool" where
  \<comment> \<open>\<open>str.isdigit()\<close>: non-empty, every character a digit\<close>
  "str_isdigit py s = (s \<noteq> [] \<and> list_all (\<lambda>c. re_digit py c \<or> isdigit_more py c) s)"

definition strip :: "python \<Rightarrow> pystr \<Rightarrow> pystr" where
  "strip py s = rev (dropWhile (isspace py) (rev (dropWhile (isspace py) s)))"

definition digit_value :: "python \<Rightarrow> int \<Rightarrow> nat" where
  "digit_value py c = (case digit_of py c of Some v \<Rightarrow> v | None \<Rightarrow> 0)"

definition py_int :: "python \<Rightarrow> pystr \<Rightarrow> exn + int" where
  \<comment> \<open>\<open>int(s)\<close> for a string without sign or spaces: a \<open>ValueError\<close> when \<open>s\<close> is not
      made of decimal digits or has more of them than the limit, else the number it
      denotes\<close>
  "py_int py s =
     (if s = [] \<or> \<not> list_all (re_digit py) s then Inl ValueError
      else if (case max_str_digits py of Some m \<Rightarrow> m < int (length s) | None \<Rightarrow> False)
      then Inl ValueError
      else Inr (foldl (\<lambda>a c. 10 * a + int (digit_value py c)) 0 s))"

definition digit_char :: "nat \<Rightarrow> int" where
  "digit_char n = 48 + int n"

function str_nat :: "nat \<Rightarrow> pystr" where
  "str_nat n = (if n < 10 then [digit_char n] else str_nat (n div 10) @ [digit_char (n mod 10)])"
  by pat_completeness auto
termination
  by (relation "measure id") auto

definition format_0d :: "nat \<Rightarrow> int \<Rightarrow> pystr" where
  \<comment> \<open>\<open>f"{i:0{w}d}"\<close>: the sign first, then zeros up to the width, then the digits;
      a longer number is not truncated\<close>
  "format_0d w i =
     (if i < 0
      then 45 # replicate (w - 1 - length (str_nat (nat (- i)))) 48 @ str_nat (nat (- i))
      else replicate (w - length (str_nat (nat i))) 48 @ str_nat (nat i))"

subsection \<open>\<open>os.path.splitext\<close>\<close>

datatype os_name = nt | posix

definition path_seps :: "os_name \<Rightarrow> int list" where
  \<comment> \<open>\<open>sep\<close> and \<open>altsep\<close> of \<open>ntpath\<close> (backslash and slash) and of \<open>posixpath\<close>\<close>
  "path_seps os = (case os of nt \<Rightarrow> [92, 47] | posix \<Rightarrow> [47])"

definition rfind :: "(int \<Rightarrow> bool) \<Rightarrow> pystr \<Rightarrow> int" where
  \<comment> \<open>the last index whose character satisfies \<open>P\<close>, or \<open>-1\<close>\<close>
  "rfind P p = int (length p) - 1 - int (length (takeWhile (\<lambda>c. \<not> P c) (rev p)))"

definition splitext :: "os_name \<Rightarrow> pystr \<Rightarrow> pystr \<times> pystr" where
  \<comment> \<open>the extension starts at the last dot (code point 46) of the last path component,
      unless only dots precede it there\<close>
  "splitext os p =
     (let sepIndex = rfind (\<lambda>c. c \<in> set (path_seps os)) p;
          dotIndex = rfind (\<lambda>c. c = 46) p
      in if dotIndex > sepIndex \<and>
            list_ex (\<lambda>c. c \<noteq> 46)
              (take (nat (dotIndex - (sepIndex + 1))) (drop (nat (sepIndex + 1)) p))
         then (take (nat dotIndex) p, drop (nat dotIndex) p)
         else (p, []))"

section \<open>The filename classifier\<close>

text \<open>
  \<open>is_sequence_file\<close> builds the pattern \<open>^(\d+)[separators]+(.*)$\<close> and calls
  \<open>re.match\<close> with \<open>re.IGNORECASE\<close>. Every separator is passed through \<open>re.escape\<close>,
  so the bracket holds exactly the characters of the separators, each one literal.
  With no character at all the pattern is \<open>^(\d+)[]+(.*)$\<close>, an unterminated set, and
  compiling it raises \<open>re.error\<close>.

  The matcher follows the backtracking search of \<open>re\<close>: each greedy repetition first
  takes as many characters as it can and gives them back one at a time while the rest of
  the pattern fails.
\<close>

definition sep_class :: "python \<Rightarrow> pystr list \<Rightarrow> int \<Rightarrow> bool" where
  "sep_class py seps c = (\<exists>s\<in>set (concat seps). ignorecase_eq py c s)"

definition dot_star_end :: "pystr \<Rightarrow> pystr option" where
  \<comment> \<open>\<open>(.*)$\<close>: the dot matches everything but a newline, \<open>$\<close> matches at the end and
      before a newline that ends the string\<close>
  "dot_star_end r =
     (let g = takeWhile (\<lambda>c. c \<noteq> newline) r; t = dropWhile (\<lambda>c. c \<noteq> newline) r
      in if t = [] \<or> t = [newline] then Some g else None)"

fun try_seps :: "pystr \<Rightarrow> nat \<Rightarrow> pystr option" where
  "try_seps r 0 = None"
| "try_seps r (Suc j) =
     (case dot_star_end (drop (Suc j) r) of
        Some g \<Rightarrow> Some g
      | None \<Rightarrow> try_seps r j)"

fun try_digits :: "(int \<Rightarrow> bool) \<Rightarrow> pystr \<Rightarrow> nat \<Rightarrow> (pystr \<times> pystr) option" where
  "try_digits cls s 0 = None"
| "try_digits cls s (Suc i) =
     (case try_seps (drop (Suc i) s) (length (takeWhile cls (drop (Suc i) s))) of
        Some g \<Rightarrow> Some (take (Suc i) s, g)
      | None \<Rightarrow> try_digits cls s i)"

definition re_match :: "python \<Rightarrow> pystr list \<Rightarrow> pystr \<Rightarrow> exn + (pystr \<times> pystr) option" where
  \<comment> \<open>the two capture groups of a match, \<open>None\<close> when there is none\<close>
  "re_match py seps s =
     (if concat seps = [] then Inl re_error
      else Inr (try_digits (sep_class py seps) s (length (takeWhile (re_digit py) s))))"

definition is_sequence_file ::
  "python \<Rightarrow> os_name \<Rightarrow> pystr list \<Rightarrow> pystr \<Rightarrow> bool \<times> int option \<times> pystr option \<times> pystr" where
  \<comment> \<open>every exception of the \<open>try\<close> block, the \<open>ValueError\<close> of \<open>int\<close> among them, is
      caught and ends in the last \<open>return\<close>\<close>
  "is_sequence_file py os seps filename =
     (case splitext os filename of (name_without_ext, ext) \<Rightarrow>
        (case re_match py seps name_without_ext of
           Inl e \<Rightarrow> (False, None, None, ext)
         | Inr None \<Rightarrow> (False, None, None, ext)
         | Inr (Some (serial_str, g2)) \<Rightarrow>
             if \<not> str_isdigit py serial_str then (False, None, None, ext)
             else (case py_int py serial_str of
                     Inl e \<Rightarrow> (False, None, None, ext)
                   | Inr serial_num \<Rightarrow> (True, Some serial_num, Some (strip py g2), ext))))"

section \<open>The renamer\<close>

record config =
  SERIAL_PAD :: nat
  CONNECTOR :: pystr
  PREFIX_CHAR :: pystr
  BASE_SERIAL :: int
  SEPARATORS :: "pystr list"

text \<open>
  The target folder is a list of named entries, in the order \<open>os.listdir\<close> returns
  them. An entry is a directory (empty or not), a file, or a symbolic link with its
  text. A file is given by the file itself, of any type: two entries with the same file
  are hard links to it. Names are compared as they are written. A path inside the folder
  is identified with the entry's name.

  What a link leads to is the system's answer, given the folder as it is at that moment:
  nothing (a dangling link, or a loop), a file or a directory. The system also decides
  which renames it refuses, for a name that is too long or a missing permission.
\<close>

datatype 'a node = Dir bool | File 'a | Link pystr

datatype kind = IsFile | IsDir

type_synonym 'a folder = "(pystr \<times> 'a node) list"

record 'a system =
  flavour :: os_name
  resolve :: "(pystr \<times> 'a node) list \<Rightarrow> pystr \<Rightarrow> kind option"
  refuses :: "pystr \<Rightarrow> pystr \<Rightarrow> bool"

definition listdir :: "'a folder \<Rightarrow> pystr list" where
  "listdir d = map fst d"

definition path_exists :: "'a system \<Rightarrow> 'a folder \<Rightarrow> pystr \<Rightarrow> bool" where
  \<comment> \<open>\<open>os.path.exists\<close> follows links: a dangling link does not exist\<close>
  "path_exists sys d name =
     (case map_of d name of
        None \<Rightarrow> False
      | Some (Link t) \<Rightarrow> resolve sys d t \<noteq> None
      | Some _ \<Rightarrow> True)"

definition isdir :: "'a system \<Rightarrow> 'a folder \<Rightarrow> pystr \<Rightarrow> bool" where
  \<comment> \<open>\<open>os.path.isdir\<close> follows links too\<close>
  "isdir sys d name =
     (case map_of d name of
        Some (Dir _) \<Rightarrow> True
      | Some (Link t) \<Rightarrow> resolve sys d t = Some IsDir
      | _ \<Rightarrow> False)"

definition move_entry :: "pystr \<Rightarrow> pystr \<Rightarrow> 'a folder \<Rightarrow> 'a folder" where
  \<comment> \<open>the entry named \<open>src\<close> gets the name \<open>dst\<close>\<close>
  "move_entry src dst d = map (\<lambda>(n, y). if n = src then (dst, y) else (n, y)) d"

definition replace_entry :: "pystr \<Rightarrow> pystr \<Rightarrow> 'a folder \<Rightarrow> 'a folder" where
  \<comment> \<open>the entry named \<open>dst\<close> is removed and the entry named \<open>src\<close> takes its name\<close>
  "replace_entry src dst d = move_entry src dst (filter (\<lambda>(n, y). n \<noteq> dst) d)"

definition os_rename :: "'a system \<Rightarrow> 'a folder \<Rightarrow> pystr \<Rightarrow> pystr \<Rightarrow> exn + 'a folder" where
  \<comment> \<open>\<open>os.rename\<close> works on the entries themselves and follows no link. On \<open>nt\<close> an
      existing destination is an error. On \<open>posix\<close> a file or link replaces a file or
      link silently (nothing happens when both names are the same file), a directory
      replaces an empty directory, and the other combinations are errors\<close>
  "os_rename sys d src dst =
     (case map_of d src of
        None \<Rightarrow> Inl FileNotFoundError
      | Some x \<Rightarrow>
          if refuses sys src dst then Inl OSError
          else if src = dst then Inr d
          else (case map_of d dst of
                  None \<Rightarrow> Inr (move_entry src dst d)
                | Some y \<Rightarrow>
                    (case flavour sys of
                       nt \<Rightarrow> Inl FileExistsError
                     | posix \<Rightarrow>
                         (case x of
                            Dir _ \<Rightarrow>
                              (case y of
                                 Dir vacant \<Rightarrow>
                                   if vacant then Inr (replace_entry src dst d) else Inl OSError
                               | _ \<Rightarrow> Inl NotADirectoryError)
                          | File a \<Rightarrow>
                              (case y of
                                 Dir _ \<Rightarrow> Inl IsADirectoryError
                               | File b \<Rightarrow> if a = b then Inr d else Inr (replace_entry src dst d)
                               | Link _ \<Rightarrow> Inr (replace_entry src dst d))
                          | Link _ \<Rightarrow>
                              (case y of
                                 Dir _ \<Rightarrow> Inl IsADirectoryError
                               | _ \<Rightarrow> Inr (replace_entry src dst d))))))"

subsection \<open>Scanning the folder\<close>

record file_info =
  old_path :: pystr
  serial_num :: int
  content :: pystr
  ext :: pystr
  final_serial :: "int option"

fun collect ::
  "python \<Rightarrow> 'a system \<Rightarrow> pystr list \<Rightarrow> 'a folder \<Rightarrow> pystr list \<Rightarrow> file_info list" where
  "collect py sys seps d [] = []"
| "collect py sys seps d (filename # rest) =
     (if isdir sys d filename then collect py sys seps d rest
      else (case is_sequence_file py (flavour sys) seps filename of
              (True, Some n, Some c, e) \<Rightarrow>
                \<lparr>old_path = filename, serial_num = n, content = c, ext = e,
                 final_serial = None\<rparr> # collect py sys seps d rest
            | _ \<Rightarrow> collect py sys seps d rest))"

subsection \<open>The serial remap\<close>

definition unique_serials :: "file_info list \<Rightarrow> int list" where
  "unique_serials sequence_files = sort (remdups (map serial_num sequence_files))"

definition remap_step :: "int \<Rightarrow> int \<times> int \<Rightarrow> (int \<rightharpoonup> int) \<Rightarrow> (int \<rightharpoonup> int)" where
  \<comment> \<open>the body of the loop over \<open>zip(unique_serials, reversed_unique_serials)\<close>\<close>
  "remap_step base p m = (case p of (original, reversed_serial) \<Rightarrow>
     m(original \<mapsto> base + reversed_serial))"

definition serial_reverse_map :: "int \<Rightarrow> int list \<Rightarrow> (int \<rightharpoonup> int)" where
  "serial_reverse_map base us = fold (remap_step base) (zip us (rev us)) Map.empty"

fun assign_final :: "(int \<rightharpoonup> int) \<Rightarrow> file_info list \<Rightarrow> exn + file_info list" where
  "assign_final m [] = Inr []"
| "assign_final m (f # fs) =
     (case m (serial_num f) of
        None \<Rightarrow> Inl KeyError
      | Some v \<Rightarrow>
          (case assign_final m fs of
             Inl e \<Rightarrow> Inl e
           | Inr fs' \<Rightarrow> Inr (f\<lparr>final_serial := Some v\<rparr> # fs')))"

subsection \<open>Renaming\<close>

definition new_name :: "config \<Rightarrow> pystr \<Rightarrow> file_info \<Rightarrow> pystr" where
  "new_name cfg formatted_serial fi =
     PREFIX_CHAR cfg @ formatted_serial @ CONNECTOR cfg @ content fi @ ext fi"

definition temp_new_name :: "config \<Rightarrow> pystr \<Rightarrow> file_info \<Rightarrow> nat \<Rightarrow> pystr" where
  "temp_new_name cfg formatted_serial fi counter =
     PREFIX_CHAR cfg @ formatted_serial @ CONNECTOR cfg @ content fi
       @ lit ''('' @ str_nat counter @ lit '')'' @ ext fi"

text \<open>
  The loop \<open>while os.path.exists(temp_new_path)\<close> ends because the folder is finite and
  different counters give different names: \<open>ascii_value\<close> reads the decimal
  representation back.
\<close>

definition ascii_value :: "pystr \<Rightarrow> nat" where
  "ascii_value s = foldl (\<lambda>a c. 10 * a + nat (c - 48)) 0 s"

declare str_nat.simps [simp del]

lemma ascii_value_str_nat: "ascii_value (str_nat n) = n"
proof (induction n rule: str_nat.induct)
  case (1 n)
  show ?case
  proof (cases "n < 10")
    case True
    then show ?thesis
      by (subst str_nat.simps) (simp add: ascii_value_def digit_char_def)
  next
    case False
    then have "ascii_value (str_nat n) = 10 * (n div 10) + n mod 10"
      using 1 by (subst str_nat.simps) (simp add: ascii_value_def digit_char_def)
    then show ?thesis by (simp only: mult_div_mod_eq)
  qed
qed

lemma str_nat_inj: "str_nat a = str_nat b \<Longrightarrow> a = b"
  by (metis ascii_value_str_nat)

lemma temp_new_name_inj: "inj (temp_new_name cfg formatted_serial fi)"
  by (rule injI) (simp add: temp_new_name_def str_nat_inj)

lemma finite_taken_counters:
  "finite {k. c \<le> k \<and> temp_new_name cfg fs fi k \<in> set (listdir d)}"
proof -
  have "finite (temp_new_name cfg fs fi -` set (listdir d))"
    by (rule finite_vimageI) (simp_all add: temp_new_name_inj)
  then show ?thesis by (rule rev_finite_subset) auto
qed

lemma path_exists_listed: "path_exists sys d name \<Longrightarrow> name \<in> set (listdir d)"
proof -
  assume "path_exists sys d name"
  then have "map_of d name \<noteq> None"
    by (cases "map_of d name") (simp_all add: path_exists_def)
  then show ?thesis by (simp add: listdir_def map_of_eq_None_iff)
qed

function while_exists ::
  "'a system \<Rightarrow> 'a folder \<Rightarrow> config \<Rightarrow> pystr \<Rightarrow> file_info \<Rightarrow> pystr \<Rightarrow> nat \<Rightarrow> pystr" where
  "while_exists sys d cfg formatted_serial fi temp_new_path counter =
     (if path_exists sys d temp_new_path
      then while_exists sys d cfg formatted_serial fi
             (temp_new_name cfg formatted_serial fi counter) (counter + 1)
      else temp_new_path)"
  by pat_completeness auto
termination
proof (relation "measure (\<lambda>(sys, d, cfg, fs, fi, p, c).
          card {k. c \<le> k \<and> temp_new_name cfg fs fi k \<in> set (listdir d)}
          + (if path_exists sys d p then 1 else 0))")
  show "wf (measure (\<lambda>(sys :: 'a system, d, cfg, fs, fi, p, c).
          card {k. c \<le> k \<and> temp_new_name cfg fs fi k \<in> set (listdir d)}
          + (if path_exists sys d p then 1 else 0)))"
    by simp
next
  fix sys :: "'a system" and d cfg fs fi p and c :: nat
  assume ex: "path_exists sys d p"
  let ?S = "\<lambda>c. {k. c \<le> k \<and> temp_new_name cfg fs fi k \<in> set (listdir d)}"
  have fin: "finite (?S (c + 1))" by (rule finite_taken_counters)
  have "card (?S (c + 1)) + (if path_exists sys d (temp_new_name cfg fs fi c) then 1 else 0)
          \<le> card (?S c)"
  proof (cases "temp_new_name cfg fs fi c \<in> set (listdir d)")
    case True
    then have "?S c = insert c (?S (c + 1))"
      by (auto simp: le_Suc_eq)
    moreover have "c \<notin> ?S (c + 1)" by simp
    ultimately have "card (?S c) = card (?S (c + 1)) + 1" using fin by simp
    then show ?thesis by simp
  next
    case False
    then have "\<not> path_exists sys d (temp_new_name cfg fs fi c)"
      using path_exists_listed by blast
    moreover have "?S c = ?S (c + 1)"
      using False by auto (metis Suc_leI le_neq_implies_less)
    ultimately show ?thesis by simp
  qed
  then show "((sys, d, cfg, fs, fi, temp_new_name cfg fs fi c, c + 1), (sys, d, cfg, fs, fi, p, c))
        \<in> measure (\<lambda>(sys, d, cfg, fs, fi, p, c).
          card {k. c \<le> k \<and> temp_new_name cfg fs fi k \<in> set (listdir d)}
          + (if path_exists sys d p then 1 else 0))"
    using ex by simp
qed

declare while_exists.simps [simp del]

datatype outcome = Success pystr pystr | Failure pystr exn

definition rename_file ::
  "'a system \<Rightarrow> config \<Rightarrow> 'a folder \<Rightarrow> file_info \<Rightarrow> 'a folder \<times> outcome" where
  \<comment> \<open>the body of the rename loop; an exception leaves the folder as it is and is
      reported\<close>
  "rename_file sys cfg d fi =
     (case final_serial fi of
        None \<Rightarrow> (d, Failure (old_path fi) KeyError)
      | Some n \<Rightarrow>
          (let formatted_serial = format_0d (SERIAL_PAD cfg) n;
               temp_new_path =
                 while_exists sys d cfg formatted_serial fi (new_name cfg formatted_serial fi) 1
           in case os_rename sys d (old_path fi) temp_new_path of
                Inl e \<Rightarrow> (d, Failure (old_path fi) e)
              | Inr d' \<Rightarrow> (d', Success (old_path fi) temp_new_path)))"

fun rename_all ::
  "'a system \<Rightarrow> config \<Rightarrow> 'a folder \<Rightarrow> file_info list \<Rightarrow> 'a folder \<times> outcome list" where
  "rename_all sys cfg d [] = (d, [])"
| "rename_all sys cfg d (fi # rest) =
     (case rename_file sys cfg d fi of (d', r) \<Rightarrow>
        (case rename_all sys cfg d' rest of (d'', rs) \<Rightarrow> (d'', r # rs)))"

definition main ::
  "python \<Rightarrow> 'a system \<Rightarrow> config \<Rightarrow> 'a folder option
     \<Rightarrow> exn + 'a folder option \<times> outcome list" where
  \<comment> \<open>the argument is the target folder, \<open>None\<close> when it does not exist; the result is
      the folder after the run and the outcome of every rename, in order\<close>
  "main py sys cfg target =
     (case target of
        None \<Rightarrow> Inr (None, [])
      | Some d \<Rightarrow>
          (let sequence_files = collect py sys (SEPARATORS cfg) d (listdir d)
           in if sequence_files = [] then Inr (Some d, [])
              else (case assign_final
                           (serial_reverse_map (BASE_SERIAL cfg) (unique_serials sequence_files))
                           sequence_files of
                      Inl e \<Rightarrow> Inl e
                    | Inr fs \<Rightarrow>
                        (case rename_all sys cfg d fs of (d', rs) \<Rightarrow> Inr (Some d', rs)))))"

definition no_links :: "'a folder \<Rightarrow> bool" where
  "no_links d = list_all (\<lambda>(n, y). case y of Link t \<Rightarrow> False | _ \<Rightarrow> True) d"

subsection \<open>Example inputs\<close>

definition unicode_tolower :: "int \<Rightarrow> int" where
  \<comment> \<open>the lower-case mapping of the code points below 256\<close>
  "unicode_tolower c =
     (if (65 \<le> c \<and> c \<le> 90) \<or> (192 \<le> c \<and> c \<le> 222 \<and> c \<noteq> 215) then c + 32 else c)"

definition example_python :: python where
  \<comment> \<open>an interpreter with the default limit of \<open>int\<close>; its tables are those of Unicode
      on the code points below 256 and on the ideographic comma, and take any other
      character for a caseless one that is neither digit nor space\<close>
  "example_python =
     \<lparr>digit_of = (\<lambda>c. if 48 \<le> c \<and> c \<le> 57 then Some (nat (c - 48)) else None),
      isdigit_more = (\<lambda>c. c \<in> {178, 179, 185}),
      isspace = (\<lambda>c. (9 \<le> c \<and> c \<le> 13) \<or> (28 \<le> c \<and> c \<le> 32) \<or> c = 133 \<or> c = 160),
      ignorecase_eq = (\<lambda>c s. unicode_tolower c = unicode_tolower s),
      max_str_digits = Some 4300\<rparr>"

definition example_system :: "os_name \<Rightarrow> 'a system" where
  \<comment> \<open>every link dangles and no rename is refused\<close>
  "example_system os = \<lparr>flavour = os, resolve = (\<lambda>d t. None), refuses = (\<lambda>src dst. False)\<rparr>"




definition example_config :: config where
  \<comment> \<open>the configuration of the specification's worked example\<close>
  "example_config = \<lparr>SERIAL_PAD = 3, CONNECTOR = lit ''. '', PREFIX_CHAR = lit ''No.'',
     BASE_SERIAL = 0, SEPARATORS = [lit ''.'', lit '' '']\<rparr>"


definition example_entry :: "string \<Rightarrow> int \<Rightarrow> string \<Rightarrow> int option \<Rightarrow> file_info" where
  "example_entry name n c v =
     \<lparr>old_path = lit name, serial_num = n, content = lit c, ext = lit ''.txt'',
      final_serial = v\<rparr>"

subsection \<open>The pattern, as the specification words it\<close>




section \<open>The timestamp editor\<close>

text \<open>
  A raised exception is its class and the values its message interpolates, in the order
  of the source's f-string; the fixed text around them is left out.
  A point in time is a number of seconds since the epoch, as \<open>time.mktime\<close> returns it
  and \<open>os.utime\<close> takes it; a file time on Windows is the instant that
  \<open>pywintypes.Time(datetime.fromtimestamp(ts))\<close> denotes, on the same scale.
\<close>

datatype raised = Raise exn "string list"

record file_times =
  create_t :: real
  access_t :: real
  modify_t :: real

datatype fs_node = Directory | Regular file_times

type_synonym filesystem = "string \<rightharpoonup> fs_node"

text \<open>
  What the call takes from the interpreter and the machine: the platform name, the two
  library conversions with their failures, the clock, and whether the operating system
  lets the process change the times of a path.
\<close>

record 'd pyenv =
  system :: string
    \<comment> \<open>\<open>platform.system()\<close>\<close>
  strptime :: "string \<Rightarrow> string \<Rightarrow> string + 'd"
    \<comment> \<open>\<open>datetime.strptime(time_str, format_str)\<close>; \<open>Inl\<close> is the text of its
        \<open>ValueError\<close>\<close>
  mktime :: "'d \<Rightarrow> real option"
    \<comment> \<open>\<open>time.mktime(dt.timetuple())\<close>; \<open>None\<close> is its \<open>OverflowError\<close>\<close>
  ts_to_pywintime :: "real \<Rightarrow> string + real"
    \<comment> \<open>\<open>Inl\<close> is the text of the error \<open>datetime.fromtimestamp\<close> raises for a value
        the platform does not support\<close>
  time_time :: "nat \<Rightarrow> real"
    \<comment> \<open>the readings of \<open>time.time()\<close>, numbered from 0 in the order of the calls\<close>
  os_error :: "string \<Rightarrow> string option"
    \<comment> \<open>the text of the error of \<open>win32file.CreateFile\<close> or \<open>os.utime\<close> on a path
        whose times the process may not change\<close>

datatype printed =
    CreateTimeIgnoredWarning
  | SuccessLine
  | PathLine string
  | CreateLine "string option"
  | ModifyLine "string option"
  | AccessLine "string option"

definition convert_to_timestamp :: "'d pyenv \<Rightarrow> string \<Rightarrow> string \<Rightarrow> raised + real" where
  "convert_to_timestamp env time_str format_str =
     (case strptime env time_str format_str of
        Inl e \<Rightarrow> Inl (Raise ValueError [format_str, e])
      | Inr dt \<Rightarrow>
          (case mktime env dt of
             None \<Rightarrow> Inl (Raise OverflowError [])
           | Some ts \<Rightarrow> Inr ts))"

definition str_truthy :: "string option \<Rightarrow> bool" where
  \<comment> \<open>\<open>if time_str\<close>: neither \<open>None\<close> nor the empty string\<close>
  "str_truthy x = (case x of None \<Rightarrow> False | Some s \<Rightarrow> s \<noteq> [])"

definition ts_truthy :: "real option \<Rightarrow> bool" where
  \<comment> \<open>\<open>if new_ts\<close>: neither \<open>None\<close> nor \<open>0.0\<close>\<close>
  "ts_truthy x = (case x of None \<Rightarrow> False | Some t \<Rightarrow> t \<noteq> 0)"

definition optional_timestamp ::
  "'d pyenv \<Rightarrow> string option \<Rightarrow> string \<Rightarrow> raised + real option" where
  \<comment> \<open>\<open>convert_to_timestamp(time_str, time_format) if time_str else None\<close>\<close>
  "optional_timestamp env time_str time_format =
     (case time_str of
        None \<Rightarrow> Inr None
      | Some s \<Rightarrow>
          if s \<noteq> [] then
            (case convert_to_timestamp env s time_format of
               Inl e \<Rightarrow> Inl e
             | Inr ts \<Rightarrow> Inr (Some ts))
          else Inr None)"

definition final_time :: "'d pyenv \<Rightarrow> real option \<Rightarrow> real \<Rightarrow> string + real" where
  \<comment> \<open>\<open>ts_to_pywintime(new_ts) if new_ts else original\<close>\<close>
  "final_time env new_ts original =
     (case new_ts of
        None \<Rightarrow> Inr original
      | Some ts \<Rightarrow> if ts \<noteq> 0 then ts_to_pywintime env ts else Inr original)"

definition windows_branch ::
  "'d pyenv \<Rightarrow> filesystem \<Rightarrow> string \<Rightarrow> file_times \<Rightarrow> real option \<Rightarrow> real option \<Rightarrow> real option
     \<Rightarrow> (string + filesystem) \<times> printed list" where
  \<comment> \<open>open the file, read its three times, replace the ones to change, write all three\<close>
  "windows_branch env fs file_path original new_create_ts new_modify_ts new_access_ts =
     (case os_error env file_path of
        Some e \<Rightarrow> (Inl e, [])
      | None \<Rightarrow>
          (case final_time env new_create_ts (create_t original) of
             Inl e \<Rightarrow> (Inl e, [])
           | Inr final_create \<Rightarrow>
          (case final_time env new_access_ts (access_t original) of
             Inl e \<Rightarrow> (Inl e, [])
           | Inr final_access \<Rightarrow>
          (case final_time env new_modify_ts (modify_t original) of
             Inl e \<Rightarrow> (Inl e, [])
           | Inr final_modify \<Rightarrow>
               (Inr (fs(file_path \<mapsto> Regular \<lparr>create_t = final_create,
                       access_t = final_access, modify_t = final_modify\<rparr>)), [])))))"

definition other_branch ::
  "'d pyenv \<Rightarrow> filesystem \<Rightarrow> string \<Rightarrow> file_times \<Rightarrow> real option \<Rightarrow> real option \<Rightarrow> real option
     \<Rightarrow> (string + filesystem) \<times> printed list" where
  \<comment> \<open>the warning, then \<open>os.utime(file_path, (utime_access, utime_modify))\<close>; each
      \<open>new_ts or time.time()\<close> reads the clock only when the value is falsy\<close>
  "other_branch env fs file_path original new_create_ts new_modify_ts new_access_ts =
     (let out = (if ts_truthy new_create_ts then [CreateTimeIgnoredWarning] else []);
          utime_access = (if ts_truthy new_access_ts then the new_access_ts else time_time env 0);
          utime_modify = (if ts_truthy new_modify_ts then the new_modify_ts
                          else time_time env (if ts_truthy new_access_ts then 0 else 1))
      in case os_error env file_path of
           Some e \<Rightarrow> (Inl e, out)
         | None \<Rightarrow>
             (Inr (fs(file_path \<mapsto> Regular (original\<lparr>access_t := utime_access,
                     modify_t := utime_modify\<rparr>))), out))"

definition shown :: "string option \<Rightarrow> string option" where
  \<comment> \<open>\<open>time_str if time_str else\<close> the text for "not modified", here \<open>None\<close>\<close>
  "shown time_str = (if str_truthy time_str then time_str else None)"

definition modify_file_times ::
  "'d pyenv \<Rightarrow> filesystem \<Rightarrow> string \<Rightarrow> string option \<Rightarrow> string option \<Rightarrow> string option \<Rightarrow> string
     \<Rightarrow> (raised + unit) \<times> filesystem \<times> printed list" where
  \<comment> \<open>the result, the file system after the call and the lines printed\<close>
  "modify_file_times env fs file_path create_time modify_time access_time time_format =
     (case fs file_path of
        None \<Rightarrow> (Inl (Raise FileNotFoundError [file_path]), fs, [])
      | Some Directory \<Rightarrow> (Inl (Raise IsADirectoryError [file_path]), fs, [])
      | Some (Regular original) \<Rightarrow>
          (case optional_timestamp env create_time time_format of
             Inl e \<Rightarrow> (Inl e, fs, [])
           | Inr new_create_ts \<Rightarrow>
          (case optional_timestamp env modify_time time_format of
             Inl e \<Rightarrow> (Inl e, fs, [])
           | Inr new_modify_ts \<Rightarrow>
          (case optional_timestamp env access_time time_format of
             Inl e \<Rightarrow> (Inl e, fs, [])
           | Inr new_access_ts \<Rightarrow>
               (case (if system env = ''Windows''
                      then windows_branch env fs file_path original
                             new_create_ts new_modify_ts new_access_ts
                      else other_branch env fs file_path original
                             new_create_ts new_modify_ts new_access_ts) of
                  (Inl e, out) \<Rightarrow> (Inl (Raise RuntimeError [e]), fs, out)
                | (Inr fs', out) \<Rightarrow>
                    (Inr (), fs',
                     out @ [SuccessLine, PathLine file_path, CreateLine (shown create_time),
                            ModifyLine (shown modify_time), AccessLine (shown access_time)]))))))"

subsection \<open>An example machine\<close>

definition default_format :: string where
  "default_format = ''%Y-%m-%d %H:%M:%S''"

definition example_strptime :: "string \<Rightarrow> string \<Rightarrow> string + real" where
  \<comment> \<open>three dates in the default format, read on a machine whose local time is UTC;
      a parsed date is kept as its distance from the epoch\<close>
  "example_strptime time_str format_str =
     (if format_str = default_format \<and> time_str = ''2023-01-01 20:00:00'' then Inr 1672603200
      else if format_str = default_format \<and> time_str = ''1970-01-01 00:00:00'' then Inr 0
      else if format_str = default_format \<and> time_str = ''1969-12-31 23:59:59'' then Inr (- 1)
      else Inl ''time data does not match format'')"

definition example_env :: "string \<Rightarrow> real pyenv" where
  \<comment> \<open>on Windows \<open>time.mktime\<close> refuses a date before the epoch\<close>
  "example_env name =
     \<lparr>system = name, strptime = example_strptime,
      mktime = (\<lambda>t. if name = ''Windows'' \<and> t < 0 then None else Some t),
      ts_to_pywintime = Inr, time_time = (\<lambda>k. 1700000000 + real k),
      os_error = (\<lambda>p. None)\<rparr>"

definition example_fs :: filesystem where
  "example_fs = [''Ring.mp4'' \<mapsto> Regular \<lparr>create_t = 100, access_t = 200, modify_t = 300\<rparr>]"

section \<open>Properties of the renamer\<close>

subsection \<open>The remap table\<close>

lemma fold_remap_step_other:
  "k \<notin> set (map fst ps) \<Longrightarrow> fold (remap_step b) ps m k = m k"
  by (induction ps arbitrary: m) (auto simp: remap_step_def)

lemma fold_remap_step_dom:
  "dom (fold (remap_step b) ps m) = dom m \<union> set (map fst ps)"
  by (induction ps arbitrary: m) (auto simp: remap_step_def)

lemma fold_remap_step_nth:
  "distinct xs \<Longrightarrow> length xs = length ys \<Longrightarrow> i < length xs \<Longrightarrow>
   fold (remap_step b) (zip xs ys) m (xs ! i) = Some (b + ys ! i)"
proof (induction xs arbitrary: ys m i)
  case Nil
  then show ?case by simp
next
  case (Cons x xs)
  then obtain y ys' where ys: "ys = y # ys'" by (cases ys) auto
  show ?case
  proof (cases i)
    case 0
    have "x \<notin> set (map fst (zip xs ys'))"
      using Cons.prems(1) by (auto dest: set_zip_leftD)
    then show ?thesis using 0 ys
      by (simp add: fold_remap_step_other) (simp add: remap_step_def)
  next
    case (Suc j)
    then show ?thesis using Cons ys by simp
  qed
qed

lemma serial_reverse_map_nth:
  "distinct U \<Longrightarrow> i < length U \<Longrightarrow>
   serial_reverse_map B U (U ! i) = Some (B + U ! (length U - 1 - i))"
  unfolding serial_reverse_map_def by (simp add: fold_remap_step_nth rev_nth)

lemma serial_reverse_map_dom: "dom (serial_reverse_map B U) = set U"
  unfolding serial_reverse_map_def by (simp add: fold_remap_step_dom)

lemma unique_serials_ascending:
  "sorted (unique_serials fs) \<and> distinct (unique_serials fs) \<and>
   set (unique_serials fs) = serial_num ` set fs"
  by (simp add: unique_serials_def)

text \<open>
  Claim C1. Let \<open>U\<close> be a strictly ascending list of serials (sorted and without
  repetition, as \<open>unique_serials\<close> returns it) and \<open>B\<close> any base. The table the loop
  builds sends \<open>U[i]\<close> to \<open>B + U[n-1-i]\<close>, so the images of \<open>U[i]\<close> and of its mirror
  \<open>U[n-1-i]\<close> add up to \<open>2B + U[i] + U[n-1-i]\<close>; its keys are exactly the serials of \<open>U\<close>,
  and it is a bijection from them onto its range.
\<close>

theorem remap_reversal_symmetry:
  assumes "sorted U" and "distinct U"
  shows "(\<forall>i<length U.
            serial_reverse_map B U (U ! i) = Some (B + U ! (length U - 1 - i)) \<and>
            the (serial_reverse_map B U (U ! i)) + the (serial_reverse_map B U (U ! (length U - 1 - i)))
              = 2 * B + U ! i + U ! (length U - 1 - i))
         \<and> dom (serial_reverse_map B U) = set U
         \<and> bij_betw (\<lambda>u. the (serial_reverse_map B U u)) (set U) (ran (serial_reverse_map B U))"
proof (intro conjI allI impI)
  fix i assume i: "i < length U"
  then have j: "length U - 1 - i < length U" by arith
  have jj: "length U - 1 - (length U - 1 - i) = i" using i by arith
  show "serial_reverse_map B U (U ! i) = Some (B + U ! (length U - 1 - i))"
    using assms(2) i by (rule serial_reverse_map_nth)
  show "the (serial_reverse_map B U (U ! i)) + the (serial_reverse_map B U (U ! (length U - 1 - i)))
              = 2 * B + U ! i + U ! (length U - 1 - i)"
    using serial_reverse_map_nth[OF assms(2) i] serial_reverse_map_nth[OF assms(2) j] jj by simp
next
  show "dom (serial_reverse_map B U) = set U" by (rule serial_reverse_map_dom)
next
  let ?M = "serial_reverse_map B U"
  have inj: "inj_on (\<lambda>u. the (?M u)) (set U)"
  proof (rule inj_onI)
    fix a b assume a: "a \<in> set U" and b: "b \<in> set U" and e: "the (?M a) = the (?M b)"
    from a obtain i where i: "i < length U" "a = U ! i" by (auto simp: in_set_conv_nth)
    from b obtain j where j: "j < length U" "b = U ! j" by (auto simp: in_set_conv_nth)
    have "U ! (length U - 1 - i) = U ! (length U - 1 - j)"
      using e i j serial_reverse_map_nth[OF assms(2)] by simp
    moreover have "length U - 1 - i < length U" "length U - 1 - j < length U" using i j by arith+
    ultimately have "length U - 1 - i = length U - 1 - j"
      using assms(2) by (simp add: nth_eq_iff_index_eq)
    then have "i = j" using i j by arith
    then show "a = b" using i j by simp
  qed
  have img: "(\<lambda>u. the (?M u)) ` set U = ran ?M"
  proof -
    have "ran ?M = {the (?M u) | u. u \<in> dom ?M}"
      by (auto simp: ran_def dom_def) (metis option.sel)
    then show ?thesis by (auto simp: serial_reverse_map_dom)
  qed
  show "bij_betw (\<lambda>u. the (?M u)) (set U) (ran ?M)"
    using inj img by (simp add: bij_betw_def)
qed

theorem remap_reversal_symmetry_witness:
  "sorted [1, 3 :: int] \<and> distinct [1, 3 :: int] \<and>
   serial_reverse_map 0 [1, 3] 1 = Some 3 \<and> serial_reverse_map 0 [1, 3] 3 = Some 1 \<and>
   the (serial_reverse_map 0 [1, 3] 1) + the (serial_reverse_map 0 [1, 3] 3) = 2 * 0 + 1 + 3 \<and>
   dom (serial_reverse_map 0 [1, 3]) = {1, 3} \<and>
   bij_betw (\<lambda>u. the (serial_reverse_map 0 [1, 3] u)) {1, 3} (ran (serial_reverse_map 0 [1, 3]))"
proof -
  have s: "sorted [1, 3 :: int]" and d: "distinct [1, 3 :: int]" by simp_all
  note t = remap_reversal_symmetry [OF s d, of 0]
  have a0: "serial_reverse_map 0 [1, 3] 1 = Some 3" using t by (auto dest!: spec[of _ 0])
  have a1: "serial_reverse_map 0 [1, 3] 3 = Some 1" using t by (auto dest!: spec[of _ 1])
  show ?thesis using s d t a0 a1 by simp
qed

lemma assign_final_total:
  "\<forall>f\<in>set fs. serial_num f \<in> dom m \<Longrightarrow>
   assign_final m fs = Inr (map (\<lambda>f. f\<lparr>final_serial := m (serial_num f)\<rparr>) fs)"
  by (induction fs) auto

text \<open>
  Claim C8. With the table \<open>M\<close> that \<open>main\<close> builds from the classified files, the
  assignment loop raises no \<open>KeyError\<close> and gives every file the final serial
  \<open>M[s]\<close> of its own serial \<open>s\<close>; so two files with the same original serial get the
  same final serial.
\<close>

theorem same_serial_same_final:
  "\<exists>fs'. assign_final (serial_reverse_map B (unique_serials files)) files = Inr fs' \<and>
     length fs' = length files \<and>
     (\<forall>i<length files. \<forall>j<length files.
        serial_num (files ! i) = serial_num (files ! j) \<longrightarrow>
          final_serial (fs' ! i) = final_serial (fs' ! j) \<and>
          final_serial (fs' ! i) = serial_reverse_map B (unique_serials files) (serial_num (files ! i)) \<and>
          final_serial (fs' ! i) \<noteq> None \<and>
          fs' ! i = (files ! i)\<lparr>final_serial := final_serial (fs' ! i)\<rparr>)"
proof -
  let ?M = "serial_reverse_map B (unique_serials files)"
  have dom: "\<forall>f\<in>set files. serial_num f \<in> dom ?M"
    by (simp add: serial_reverse_map_dom unique_serials_ascending)
  then have run: "assign_final ?M files = Inr (map (\<lambda>f. f\<lparr>final_serial := ?M (serial_num f)\<rparr>) files)"
    by (rule assign_final_total)
  have "\<forall>i<length files. ?M (serial_num (files ! i)) \<noteq> None"
    using dom by (auto simp: dom_def)
  then show ?thesis
    unfolding run by (intro exI[of _ "map (\<lambda>f. f\<lparr>final_serial := ?M (serial_num f)\<rparr>) files"]) simp
qed

theorem same_serial_same_final_witness:
  "assign_final
     (serial_reverse_map 0 (unique_serials
        [example_entry ''1.Intro.txt'' 1 ''Intro'' None, example_entry ''1.Outro.txt'' 1 ''Outro'' None,
         example_entry ''3 Middle.txt'' 3 ''Middle'' None]))
     [example_entry ''1.Intro.txt'' 1 ''Intro'' None, example_entry ''1.Outro.txt'' 1 ''Outro'' None,
      example_entry ''3 Middle.txt'' 3 ''Middle'' None]
   = Inr [example_entry ''1.Intro.txt'' 1 ''Intro'' (Some 3), example_entry ''1.Outro.txt'' 1 ''Outro'' (Some 3),
          example_entry ''3 Middle.txt'' 3 ''Middle'' (Some 1)]"
proof -
  let ?files = "[example_entry ''1.Intro.txt'' 1 ''Intro'' None, example_entry ''1.Outro.txt'' 1 ''Outro'' None,
         example_entry ''3 Middle.txt'' 3 ''Middle'' None]"
  let ?M = "serial_reverse_map 0 (unique_serials ?files)"
  from same_serial_same_final [of 0 ?files] obtain fs' where
    r: "assign_final ?M ?files = Inr fs'" and l: "length fs' = length ?files" and
    a: "\<forall>i<length ?files. \<forall>j<length ?files.
        serial_num (?files ! i) = serial_num (?files ! j) \<longrightarrow>
          final_serial (fs' ! i) = final_serial (fs' ! j) \<and>
          final_serial (fs' ! i) = ?M (serial_num (?files ! i)) \<and>
          final_serial (fs' ! i) \<noteq> None \<and>
          fs' ! i = (?files ! i)\<lparr>final_serial := final_serial (fs' ! i)\<rparr>"
    by blast
  have m1: "?M 1 = Some 3" and m3: "?M 3 = Some 1" by code_simp+
  have s: "serial_num (?files ! 0) = 1" "serial_num (?files ! 1) = 1" "serial_num (?files ! 2) = 3"
    by (simp_all add: example_entry_def)
  have e0: "fs' ! 0 = example_entry ''1.Intro.txt'' 1 ''Intro'' (Some 3)"
  proof -
    have p: "0 < length ?files" by simp
    note q = a[rule_format, OF p p refl]
    note f = q[THEN conjunct2, THEN conjunct1]
    note r = q[THEN conjunct2, THEN conjunct2, THEN conjunct2]
    from f have v: "final_serial (fs' ! 0) = Some 3" by (simp only: s m1)
    from r[unfolded v] show ?thesis by (simp add: example_entry_def)
  qed
  have e1: "fs' ! 1 = example_entry ''1.Outro.txt'' 1 ''Outro'' (Some 3)"
  proof -
    have p: "1 < length ?files" by simp
    note q = a[rule_format, OF p p refl]
    note f = q[THEN conjunct2, THEN conjunct1]
    note r = q[THEN conjunct2, THEN conjunct2, THEN conjunct2]
    from f have v: "final_serial (fs' ! 1) = Some 3" by (simp only: s m1)
    from r[unfolded v] show ?thesis by (simp add: example_entry_def)
  qed
  have e2: "fs' ! 2 = example_entry ''3 Middle.txt'' 3 ''Middle'' (Some 1)"
  proof -
    have p: "2 < length ?files" by simp
    note q = a[rule_format, OF p p refl]
    note f = q[THEN conjunct2, THEN conjunct1]
    note r = q[THEN conjunct2, THEN conjunct2, THEN conjunct2]
    from f have v: "final_serial (fs' ! 2) = Some 1" by (simp only: s m3)
    from r[unfolded v] show ?thesis by (simp add: example_entry_def)
  qed
  have "length fs' = Suc (Suc (Suc 0))" using l by simp
  then obtain x y z where "fs' = [x, y, z]" by (auto simp: length_Suc_conv)
  then have "fs' = [fs' ! 0, fs' ! 1, fs' ! 2]" by simp
  then show ?thesis using r e0 e1 e2 by simp
qed

subsection \<open>The rename loop\<close>

lemma while_exists_result:
  "\<not> path_exists sys d (while_exists sys d cfg fs fi p c) \<and>
   (if path_exists sys d p
    then \<exists>k\<ge>c. while_exists sys d cfg fs fi p c = temp_new_name cfg fs fi k \<and>
           (\<forall>j. c \<le> j \<and> j < k \<longrightarrow> path_exists sys d (temp_new_name cfg fs fi j))
    else while_exists sys d cfg fs fi p c = p)"
proof (induction sys d cfg fs fi p c rule: while_exists.induct)
  case (1 sys d cfg fs fi p c)
  show ?case
  proof (cases "path_exists sys d p")
    case False
    then show ?thesis by (simp add: while_exists.simps)
  next
    case True
    note IH = 1[OF True]
    have eq: "while_exists sys d cfg fs fi p c
                = while_exists sys d cfg fs fi (temp_new_name cfg fs fi c) (c + 1)"
      using True by (subst while_exists.simps) simp
    show ?thesis
    proof (cases "path_exists sys d (temp_new_name cfg fs fi c)")
      case False
      with IH have "while_exists sys d cfg fs fi p c = temp_new_name cfg fs fi c"
        using eq by simp
      then show ?thesis using True False by (auto intro!: exI[of _ c])
    next
      case T2: True
      with IH obtain k where k: "k \<ge> c + 1"
        "while_exists sys d cfg fs fi (temp_new_name cfg fs fi c) (c + 1)
           = temp_new_name cfg fs fi k"
        "\<forall>j. c + 1 \<le> j \<and> j < k \<longrightarrow> path_exists sys d (temp_new_name cfg fs fi j)"
        by auto
      have "\<forall>j. c \<le> j \<and> j < k \<longrightarrow> path_exists sys d (temp_new_name cfg fs fi j)"
      proof (intro allI impI)
        fix j assume j: "c \<le> j \<and> j < k"
        show "path_exists sys d (temp_new_name cfg fs fi j)"
        proof (cases "j = c")
          case True then show ?thesis using T2 by simp
        next
          case False then show ?thesis using j k(3) by simp
        qed
      qed
      moreover have "\<not> path_exists sys d (while_exists sys d cfg fs fi p c)"
        using IH eq by simp
      ultimately show ?thesis using True k eq by (auto intro!: exI[of _ k])
    qed
  qed
qed

lemma listdir_move_entry:
  "listdir (move_entry src dst d) = map (\<lambda>n. if n = src then dst else n) (listdir d)"
  by (induction d) (auto simp: move_entry_def listdir_def)

lemma snd_move_entry: "map snd (move_entry src dst d) = map snd d"
  by (induction d) (auto simp: move_entry_def)

lemma listed_map_of: "n \<in> set (listdir d) \<longleftrightarrow> map_of d n \<noteq> None"
  by (simp add: listdir_def map_of_eq_None_iff)

lemma os_rename_fresh:
  assumes "src \<in> set (listdir d)" and "dst \<notin> set (listdir d)" and "\<not> refuses sys src dst"
  shows "os_rename sys d src dst = Inr (move_entry src dst d)"
proof -
  from assms(1) obtain x where x: "map_of d src = Some x" by (auto simp: listed_map_of)
  from assms(2) have y: "map_of d dst = None" by (simp add: listed_map_of)
  have "src \<noteq> dst" using assms(1,2) by auto
  then show ?thesis using x y assms(3) by (simp add: os_rename_def)
qed









text \<open>
  Over a whole run in a folder without links no entry is lost: every entry keeps its
  place and its contents, and names that were distinct stay distinct.
\<close>

lemma no_links_exists: "no_links d \<Longrightarrow> path_exists sys d name \<longleftrightarrow> name \<in> set (listdir d)"
proof
  assume "path_exists sys d name"
  then show "name \<in> set (listdir d)" by (rule path_exists_listed)
next
  assume nl: "no_links d" and "name \<in> set (listdir d)"
  then obtain y where y: "map_of d name = Some y" by (auto simp: listed_map_of)
  then have "(name, y) \<in> set d" by (rule map_of_SomeD)
  then have "case y of Link t \<Rightarrow> False | _ \<Rightarrow> True"
    using nl by (auto simp: no_links_def list_all_iff)
  then show "path_exists sys d name" using y by (cases y) (simp_all add: path_exists_def)
qed

lemma rename_file_keeps_entries:
  assumes "rename_file sys cfg d fi = (d', r)" and "no_links d"
  shows "map snd d' = map snd d \<and> (distinct (listdir d) \<longrightarrow> distinct (listdir d'))"
proof (cases "final_serial fi")
  case None
  then show ?thesis using assms by (simp add: rename_file_def)
next
  case (Some n)
  let ?t = "while_exists sys d cfg (format_0d (SERIAL_PAD cfg) n) fi
              (new_name cfg (format_0d (SERIAL_PAD cfg) n) fi) 1"
  have run: "rename_file sys cfg d fi =
               (case os_rename sys d (old_path fi) ?t of
                  Inl e \<Rightarrow> (d, Failure (old_path fi) e)
                | Inr d' \<Rightarrow> (d', Success (old_path fi) ?t))"
    by (simp only: rename_file_def Let_def Some option.case)
  have "\<not> path_exists sys d ?t" using while_exists_result by blast
  then have free: "?t \<notin> set (listdir d)" using no_links_exists[OF assms(2)] by blast
  show ?thesis
  proof (cases "os_rename sys d (old_path fi) ?t")
    case (Inl e)
    then show ?thesis using assms(1) unfolding run by simp
  next
    case (Inr d1)
    then have d': "d' = d1" using assms(1) unfolding run by simp
    have src: "old_path fi \<in> set (listdir d)"
      using Inr by (auto simp: os_rename_def listed_map_of split: option.splits)
    have nr: "\<not> refuses sys (old_path fi) ?t"
      using Inr by (auto simp: os_rename_def split: option.splits if_splits)
    have "d1 = move_entry (old_path fi) ?t d"
      using os_rename_fresh[OF src free nr] Inr by simp
    then have d'': "d' = move_entry (old_path fi) ?t d" using d' by simp
    have "inj_on (\<lambda>name. if name = old_path fi then ?t else name) (set (listdir d))"
      using free by (auto simp: inj_on_def)
    then have "distinct (listdir d) \<longrightarrow> distinct (listdir d')"
      unfolding d'' listdir_move_entry by (simp add: distinct_map)
    then show ?thesis unfolding d'' by (simp add: snd_move_entry)
  qed
qed

lemma no_links_snd: "map snd d' = map snd d \<Longrightarrow> no_links d \<Longrightarrow> no_links d'"
proof -
  assume e: "map snd d' = map snd d" and n: "no_links d"
  have "no_links d \<longleftrightarrow> list_all (\<lambda>y. case y of Link t \<Rightarrow> False | _ \<Rightarrow> True) (map snd d)" for d :: "'a folder"
    by (auto simp: no_links_def list_all_iff)
  then show ?thesis using e n by simp
qed

lemma rename_all_keeps_entries:
  "rename_all sys cfg d fs = (d', rs) \<Longrightarrow> no_links d \<Longrightarrow>
   map snd d' = map snd d \<and> (distinct (listdir d) \<longrightarrow> distinct (listdir d'))"
proof (induction fs arbitrary: d d' rs)
  case Nil
  then show ?case by simp
next
  case (Cons fi fs)
  obtain d1 r where one: "rename_file sys cfg d fi = (d1, r)"
    by (cases "rename_file sys cfg d fi")
  obtain d2 rs' where rest: "rename_all sys cfg d1 fs = (d2, rs')"
    by (cases "rename_all sys cfg d1 fs")
  have "d' = d2" using Cons.prems(1) one rest by simp
  moreover note k = rename_file_keeps_entries[OF one Cons.prems(2)]
  moreover have "no_links d1" using k Cons.prems(2) no_links_snd by blast
  ultimately show ?case using Cons.IH[OF rest] k by simp
qed

subsection \<open>The worked example\<close>

text \<open>
  Claim C4. With separators \<open>.\<close> and space, base 0, width 3, prefix \<open>No.\<close> and
  connector \<open>. \<close>, a folder holding exactly \<open>1.Intro.txt\<close>, \<open>1.Outro.txt\<close> and
  \<open>3 Middle.txt\<close> gives the distinct serials \<open>[1, 3]\<close>, reversed \<open>[3, 1]\<close>, the table
  \<open>{1: 3, 3: 1}\<close>, and the renames to \<open>No.003. Intro.txt\<close>, \<open>No.003. Outro.txt\<close> and
  \<open>No.001. Middle.txt\<close>; no candidate is taken here, so no name gets a \<open>(k)\<close>.
  The run is that of an interpreter with the Unicode tables, on either kind of system,
  which refuses none of the three renames.
\<close>

theorem spec_example_run:
  "collect example_python (example_system os) (SEPARATORS example_config)
       [(lit ''1.Intro.txt'', File (a::nat)), (lit ''1.Outro.txt'', File b), (lit ''3 Middle.txt'', File c)]
       [lit ''1.Intro.txt'', lit ''1.Outro.txt'', lit ''3 Middle.txt'']
     = [example_entry ''1.Intro.txt'' 1 ''Intro'' None, example_entry ''1.Outro.txt'' 1 ''Outro'' None,
        example_entry ''3 Middle.txt'' 3 ''Middle'' None]
   \<and> unique_serials
       [example_entry ''1.Intro.txt'' 1 ''Intro'' None, example_entry ''1.Outro.txt'' 1 ''Outro'' None,
        example_entry ''3 Middle.txt'' 3 ''Middle'' None] = [1, 3]
   \<and> rev [1, 3 :: int] = [3, 1]
   \<and> serial_reverse_map (BASE_SERIAL example_config) [1, 3] 1 = Some 3
   \<and> serial_reverse_map (BASE_SERIAL example_config) [1, 3] 3 = Some 1
   \<and> dom (serial_reverse_map (BASE_SERIAL example_config) [1, 3]) = {1, 3}
   \<and> main example_python (example_system os) example_config
       (Some [(lit ''1.Intro.txt'', File a), (lit ''1.Outro.txt'', File b), (lit ''3 Middle.txt'', File c)])
     = Inr (Some [(lit ''No.003. Intro.txt'', File a), (lit ''No.003. Outro.txt'', File b),
                  (lit ''No.001. Middle.txt'', File c)],
            [Success (lit ''1.Intro.txt'') (lit ''No.003. Intro.txt''),
             Success (lit ''1.Outro.txt'') (lit ''No.003. Outro.txt''),
             Success (lit ''3 Middle.txt'') (lit ''No.001. Middle.txt'')])"
proof -
  let ?d = "[(lit ''1.Intro.txt'', File a), (lit ''1.Outro.txt'', File b), (lit ''3 Middle.txt'', File c)]"
  let ?r = "Inr (Some [(lit ''No.003. Intro.txt'', File a), (lit ''No.003. Outro.txt'', File b),
                  (lit ''No.001. Middle.txt'', File c)],
            [Success (lit ''1.Intro.txt'') (lit ''No.003. Intro.txt''),
             Success (lit ''1.Outro.txt'') (lit ''No.003. Outro.txt''),
             Success (lit ''3 Middle.txt'') (lit ''No.001. Middle.txt'')])"
  let ?fs = "[example_entry ''1.Intro.txt'' 1 ''Intro'' None, example_entry ''1.Outro.txt'' 1 ''Outro'' None,
        example_entry ''3 Middle.txt'' 3 ''Middle'' None]"
  have c1: "collect example_python (example_system nt) (SEPARATORS example_config) ?d [lit ''1.Intro.txt'', lit ''1.Outro.txt'', lit ''3 Middle.txt''] = ?fs"
    by code_simp
  have c2: "collect example_python (example_system posix) (SEPARATORS example_config) ?d [lit ''1.Intro.txt'', lit ''1.Outro.txt'', lit ''3 Middle.txt''] = ?fs"
    by code_simp
  have c: "collect example_python (example_system os) (SEPARATORS example_config) ?d [lit ''1.Intro.txt'', lit ''1.Outro.txt'', lit ''3 Middle.txt''] = ?fs"
    by (cases os) (simp_all only: c1 c2)
  have m1: "main example_python (example_system nt) example_config (Some ?d) = ?r" by code_simp
  have m2: "main example_python (example_system posix) example_config (Some ?d) = ?r" by code_simp
  have m: "main example_python (example_system os) example_config (Some ?d) = ?r"
    by (cases os) (simp_all only: m1 m2)
  have u: "unique_serials ?fs = [1, 3]" by code_simp
  have t1: "serial_reverse_map (BASE_SERIAL example_config) [1, 3] 1 = Some 3" by code_simp
  have t3: "serial_reverse_map (BASE_SERIAL example_config) [1, 3] 3 = Some 1" by code_simp
  have dm: "dom (serial_reverse_map (BASE_SERIAL example_config) [1, 3]) = {1, 3}"
    by (simp add: serial_reverse_map_dom)
  show ?thesis using c m u t1 t3 dm by (intro conjI) simp_all
qed


text \<open>
  When two files of the folder compose the same name, the one renamed second gets the
  suffix \<open>(1)\<close>.
\<close>

lemma spec_example_disambiguator:
  "main example_python (example_system nt) example_config
       (Some [(lit ''1.Intro.txt'', File (a::nat)), (lit ''1 Intro.txt'', File b), (lit ''3 Middle.txt'', File c)])
     = Inr (Some [(lit ''No.003. Intro.txt'', File a), (lit ''No.003. Intro(1).txt'', File b),
                  (lit ''No.001. Middle.txt'', File c)],
            [Success (lit ''1.Intro.txt'') (lit ''No.003. Intro.txt''),
             Success (lit ''1 Intro.txt'') (lit ''No.003. Intro(1).txt''),
             Success (lit ''3 Middle.txt'') (lit ''No.001. Middle.txt'')])"
  by code_simp

subsection \<open>The classifier\<close>



















section \<open>Properties of the timestamp editor\<close>

lemma optional_timestamp_None: "optional_timestamp env None fmt = Inr None"
  by (simp add: optional_timestamp_def)

lemma optional_timestamp_empty: "optional_timestamp env (Some []) fmt = Inr None"
  by (simp add: optional_timestamp_def)

lemma optional_timestamp_converted:
  "s \<noteq> [] \<Longrightarrow> convert_to_timestamp env s fmt = Inr ts \<Longrightarrow>
   optional_timestamp env (Some s) fmt = Inr (Some ts)"
  by (simp add: optional_timestamp_def)

lemma optional_timestamp_no_parse:
  "s \<noteq> [] \<Longrightarrow> strptime env s fmt = Inl e \<Longrightarrow>
   optional_timestamp env (Some s) fmt = Inl (Raise ValueError [fmt, e])"
  by (simp add: optional_timestamp_def convert_to_timestamp_def)

lemma optional_timestamp_cases:
  "optional_timestamp env x fmt = Inl (Raise OverflowError []) \<or>
   (\<exists>e. optional_timestamp env x fmt = Inl (Raise ValueError [fmt, e])) \<or>
   (\<exists>v. optional_timestamp env x fmt = Inr v)"
  by (auto simp: optional_timestamp_def convert_to_timestamp_def split: option.splits sum.splits)

lemma final_time_zero: "final_time env (Some 0) original = final_time env None original"
  by (simp add: final_time_def)






lemmas example_machine_defs =
  example_env_def example_fs_def example_strptime_def default_format_def


text \<open>
  Claim C6, amended. For a call on an existing regular file in which some time string
  that is given and not empty does not parse under the format, and no given string
  overflows \<open>time.mktime\<close>: a \<open>ValueError\<close> is raised whose message interpolates the
  expected format, nothing has been printed and the file system is the one before the
  call.
\<close>

theorem unparsable_time_raises_before_mutation:
  assumes "fs file_path = Some (Regular original)"
    and "\<exists>x\<in>{create_time, modify_time, access_time}.
           \<exists>s e. x = Some s \<and> s \<noteq> [] \<and> strptime env s time_format = Inl e"
    and "\<forall>x\<in>{create_time, modify_time, access_time}.
           optional_timestamp env x time_format \<noteq> Inl (Raise OverflowError [])"
  shows "\<exists>e. modify_file_times env fs file_path create_time modify_time access_time time_format
             = (Inl (Raise ValueError [time_format, e]), fs, [])"
proof -
  let ?o = "\<lambda>x. optional_timestamp env x time_format"
  have bad: "\<exists>x\<in>{create_time, modify_time, access_time}. \<exists>e. ?o x = Inl (Raise ValueError [time_format, e])"
    using assms(2) optional_timestamp_no_parse by blast
  have alt: "(\<exists>e. ?o x = Inl (Raise ValueError [time_format, e])) \<or> (\<exists>v. ?o x = Inr v)"
    if "x \<in> {create_time, modify_time, access_time}" for x
    using optional_timestamp_cases[of env x time_format] assms(3) that by blast
  show ?thesis
  proof (cases "\<exists>e. ?o create_time = Inl (Raise ValueError [time_format, e])")
    case True
    then show ?thesis using assms(1) by (auto simp: modify_file_times_def)
  next
    case nc: False
    then obtain vc where vc: "?o create_time = Inr vc" using alt[of create_time] by auto
    show ?thesis
    proof (cases "\<exists>e. ?o modify_time = Inl (Raise ValueError [time_format, e])")
      case True
      then show ?thesis using assms(1) vc by (auto simp: modify_file_times_def)
    next
      case nm: False
      then obtain vm where vm: "?o modify_time = Inr vm" using alt[of modify_time] by auto
      from bad nc nm obtain e where "?o access_time = Inl (Raise ValueError [time_format, e])"
        by auto
      then show ?thesis using assms(1) vc vm by (auto simp: modify_file_times_def)
    qed
  qed
qed


lemmas modify_file_times_unfold =
  modify_file_times_def optional_timestamp_def convert_to_timestamp_def
  windows_branch_def other_branch_def final_time_def shown_def str_truthy_def ts_truthy_def

theorem unparsable_time_raises_before_mutation_witness:
  "example_fs ''Ring.mp4'' = Some (Regular \<lparr>create_t = 100, access_t = 200, modify_t = 300\<rparr>) \<and>
   strptime (example_env ''Linux'') ''yesterday'' default_format
     = Inl ''time data does not match format'' \<and>
   optional_timestamp (example_env ''Linux'') (Some ''2023-01-01 20:00:00'') default_format
     = Inr (Some 1672603200) \<and>
   modify_file_times (example_env ''Linux'') example_fs ''Ring.mp4''
       (Some ''2023-01-01 20:00:00'') (Some ''yesterday'') None default_format
     = (Inl (Raise ValueError [default_format, ''time data does not match format'']), example_fs, [])"
proof -
  let ?env = "example_env ''Linux''"
  let ?call = "modify_file_times ?env example_fs ''Ring.mp4''
       (Some ''2023-01-01 20:00:00'') (Some ''yesterday'') None default_format"
  have h1: "example_fs ''Ring.mp4'' = Some (Regular \<lparr>create_t = 100, access_t = 200, modify_t = 300\<rparr>)"
    by (simp add: example_fs_def)
  have np: "strptime ?env ''yesterday'' default_format = Inl ''time data does not match format''"
    by (simp add: example_machine_defs)
  have oc: "optional_timestamp ?env (Some ''2023-01-01 20:00:00'') default_format = Inr (Some 1672603200)"
    by (simp add: optional_timestamp_def convert_to_timestamp_def example_machine_defs)
  have om: "optional_timestamp ?env (Some ''yesterday'') default_format
              = Inl (Raise ValueError [default_format, ''time data does not match format''])"
    by (simp add: optional_timestamp_def convert_to_timestamp_def example_machine_defs)
  have oa: "optional_timestamp ?env None default_format = Inr None"
    by (simp add: optional_timestamp_def)
  have h2: "\<exists>x\<in>{Some ''2023-01-01 20:00:00'', Some ''yesterday'', None}.
           \<exists>s e. x = Some s \<and> s \<noteq> [] \<and> strptime ?env s default_format = Inl e"
    using np by auto
  have h3: "\<forall>x\<in>{Some ''2023-01-01 20:00:00'', Some ''yesterday'', None}.
           optional_timestamp ?env x default_format \<noteq> Inl (Raise OverflowError [])"
    using oc om oa by auto
  from unparsable_time_raises_before_mutation [where env = ?env and fs = example_fs
      and file_path = "''Ring.mp4''" and create_time = "Some ''2023-01-01 20:00:00''"
      and modify_time = "Some ''yesterday''" and access_time = None
      and time_format = default_format, OF h1 h2 h3]
  obtain e where c: "?call = (Inl (Raise ValueError [default_format, e]), example_fs, [])"
    by blast
  have "fst ?call = Inl (Raise ValueError [default_format, ''time data does not match format''])"
    using h1 oc om by (simp add: modify_file_times_def)
  then have "e = ''time data does not match format''" unfolding c by simp
  then show ?thesis using h1 np oc c by simp
qed

text \<open>
  The claim as first stated fails in three ways. An empty string does not parse, yet
  it counts as absent: the call returns normally and, off Windows, moves the access and
  modification times to the clock. For a path that does not exist the error is
  \<open>FileNotFoundError\<close>. And when an earlier string overflows \<open>time.mktime\<close>, that
  \<open>OverflowError\<close> is raised before the later string is parsed.
\<close>

theorem unparsable_time_counterexample:
  "strptime (example_env ''Linux'') [] default_format = Inl ''time data does not match format'' \<and>
   modify_file_times (example_env ''Linux'') example_fs ''Ring.mp4'' (Some []) None None default_format
     = (Inr (),
        example_fs(''Ring.mp4'' \<mapsto> Regular \<lparr>create_t = 100, access_t = 1700000000,
                                              modify_t = 1700000001\<rparr>),
        [SuccessLine, PathLine ''Ring.mp4'', CreateLine None, ModifyLine None, AccessLine None]) \<and>
   (example_fs(''Ring.mp4'' \<mapsto> Regular \<lparr>create_t = 100, access_t = 1700000000,
                                          modify_t = 1700000001\<rparr>)) ''Ring.mp4''
     \<noteq> example_fs ''Ring.mp4'' \<and>
   strptime (example_env ''Linux'') ''yesterday'' default_format
     = Inl ''time data does not match format'' \<and>
   modify_file_times (example_env ''Linux'') example_fs ''gone.mp4'' (Some ''yesterday'') None None
       default_format
     = (Inl (Raise FileNotFoundError [''gone.mp4'']), example_fs, []) \<and>
   modify_file_times (example_env ''Windows'') example_fs ''Ring.mp4''
       (Some ''1969-12-31 23:59:59'') (Some ''yesterday'') None default_format
     = (Inl (Raise OverflowError []), example_fs, [])"
  by (simp add: modify_file_times_unfold example_machine_defs)


lemma windows_branch_zero:
  "windows_branch env fs p orig (Some 0) m a = windows_branch env fs p orig None m a"
  "windows_branch env fs p orig c (Some 0) a = windows_branch env fs p orig c None a"
  "windows_branch env fs p orig c m (Some 0) = windows_branch env fs p orig c m None"
  unfolding windows_branch_def final_time_zero by (rule refl)+

lemma other_branch_zero:
  "other_branch env fs p orig (Some 0) m a = other_branch env fs p orig None m a"
  "other_branch env fs p orig c (Some 0) a = other_branch env fs p orig c None a"
  "other_branch env fs p orig c m (Some 0) = other_branch env fs p orig c m None"
  by (simp_all add: other_branch_def ts_truthy_def)

lemma other_branch_no_warning:
  "other_branch env fs p orig None m a = (r, out) \<Longrightarrow> CreateTimeIgnoredWarning \<notin> set out"
  by (auto simp: other_branch_def ts_truthy_def Let_def split: option.splits)

lemma windows_branch_no_output: "windows_branch env fs p orig c m a = (r, out) \<Longrightarrow> out = []"
  by (auto simp: windows_branch_def split: option.splits sum.splits)

lemma zero_slot_create:
  assumes "optional_timestamp env x time_format = Inr (Some 0)"
  shows "fst (modify_file_times env fs p x mt act time_format)
           = fst (modify_file_times env fs p None mt act time_format)"
    and "fst (snd (modify_file_times env fs p x mt act time_format))
           = fst (snd (modify_file_times env fs p None mt act time_format))"
    and "CreateTimeIgnoredWarning \<notin> set (snd (snd (modify_file_times env fs p x mt act time_format)))"
  using assms
  by (auto simp: modify_file_times_def optional_timestamp_None windows_branch_zero other_branch_zero
      dest: other_branch_no_warning windows_branch_no_output
      split: option.splits fs_node.splits sum.splits prod.splits)

lemma zero_slot_modify:
  assumes "optional_timestamp env x time_format = Inr (Some 0)"
  shows "fst (modify_file_times env fs p ct x act time_format)
           = fst (modify_file_times env fs p ct None act time_format)"
    and "fst (snd (modify_file_times env fs p ct x act time_format))
           = fst (snd (modify_file_times env fs p ct None act time_format))"
  using assms
  by (auto simp: modify_file_times_def optional_timestamp_None windows_branch_zero other_branch_zero
      split: option.splits fs_node.splits sum.splits prod.splits)

lemma zero_slot_access:
  assumes "optional_timestamp env x time_format = Inr (Some 0)"
  shows "fst (modify_file_times env fs p ct mt x time_format)
           = fst (modify_file_times env fs p ct mt None time_format)"
    and "fst (snd (modify_file_times env fs p ct mt x time_format))
           = fst (snd (modify_file_times env fs p ct mt None time_format))"
  using assms
  by (auto simp: modify_file_times_def optional_timestamp_None windows_branch_zero other_branch_zero
      split: option.splits fs_node.splits sum.splits prod.splits)


text \<open>
  Claim C9. A time string that converts to the timestamp 0 is handled as an absent
  value, in each of the three positions: the result and the file system after the call
  are those of the call with \<open>None\<close> in its place, and no creation-time warning is
  printed. With such a string in all three positions, a successful call on Windows
  leaves the file its original times, and elsewhere it writes the two readings of the
  clock as access and modification time. (The report printed at the end still shows the
  string.)
\<close>

theorem epoch_zero_treated_as_absent:
  assumes "s \<noteq> []" and "convert_to_timestamp env s time_format = Inr 0"
  shows "fst (modify_file_times env fs p (Some s) mt act time_format)
           = fst (modify_file_times env fs p None mt act time_format) \<and>
         fst (snd (modify_file_times env fs p (Some s) mt act time_format))
           = fst (snd (modify_file_times env fs p None mt act time_format)) \<and>
         CreateTimeIgnoredWarning
           \<notin> set (snd (snd (modify_file_times env fs p (Some s) mt act time_format))) \<and>
         fst (modify_file_times env fs p ct (Some s) act time_format)
           = fst (modify_file_times env fs p ct None act time_format) \<and>
         fst (snd (modify_file_times env fs p ct (Some s) act time_format))
           = fst (snd (modify_file_times env fs p ct None act time_format)) \<and>
         fst (modify_file_times env fs p ct mt (Some s) time_format)
           = fst (modify_file_times env fs p ct mt None time_format) \<and>
         fst (snd (modify_file_times env fs p ct mt (Some s) time_format))
           = fst (snd (modify_file_times env fs p ct mt None time_format)) \<and>
         (fs p = Some (Regular original) \<and> os_error env p = None \<longrightarrow>
            modify_file_times env fs p (Some s) (Some s) (Some s) time_format
              = (Inr (),
                 (if system env = ''Windows'' then fs(p \<mapsto> Regular original)
                  else fs(p \<mapsto> Regular (original\<lparr>access_t := time_time env 0,
                                                      modify_t := time_time env 1\<rparr>))),
                 [SuccessLine, PathLine p, CreateLine (Some s), ModifyLine (Some s),
                  AccessLine (Some s)]))"
proof -
  have o: "optional_timestamp env (Some s) time_format = Inr (Some 0)"
    using assms by (rule optional_timestamp_converted)
  have last: "modify_file_times env fs p (Some s) (Some s) (Some s) time_format
              = (Inr (),
                 (if system env = ''Windows'' then fs(p \<mapsto> Regular original)
                  else fs(p \<mapsto> Regular (original\<lparr>access_t := time_time env 0,
                                                      modify_t := time_time env 1\<rparr>))),
                 [SuccessLine, PathLine p, CreateLine (Some s), ModifyLine (Some s),
                  AccessLine (Some s)])"
    if "fs p = Some (Regular original)" "os_error env p = None"
    using that o assms(1)
    by (cases original)
       (simp add: modify_file_times_def windows_branch_def other_branch_def final_time_def
          ts_truthy_def shown_def str_truthy_def)
  show ?thesis
  proof (intro conjI impI)
    assume "fs p = Some (Regular original) \<and> os_error env p = None"
    then show "modify_file_times env fs p (Some s) (Some s) (Some s) time_format
              = (Inr (),
                 (if system env = ''Windows'' then fs(p \<mapsto> Regular original)
                  else fs(p \<mapsto> Regular (original\<lparr>access_t := time_time env 0,
                                                      modify_t := time_time env 1\<rparr>))),
                 [SuccessLine, PathLine p, CreateLine (Some s), ModifyLine (Some s),
                  AccessLine (Some s)])"
      using last by blast
  qed (rule zero_slot_create[OF o] zero_slot_modify[OF o] zero_slot_access[OF o])+
qed

theorem epoch_zero_treated_as_absent_witness:
  "''1970-01-01 00:00:00'' \<noteq> [] \<and>
   convert_to_timestamp (example_env ''Linux'') ''1970-01-01 00:00:00'' default_format = Inr 0 \<and>
   modify_file_times (example_env ''Linux'') example_fs ''Ring.mp4''
       (Some ''1970-01-01 00:00:00'') (Some ''1970-01-01 00:00:00'') (Some ''1970-01-01 00:00:00'')
       default_format
     = (Inr (),
        example_fs(''Ring.mp4'' \<mapsto> Regular \<lparr>create_t = 100, access_t = 1700000000,
                                              modify_t = 1700000001\<rparr>),
        [SuccessLine, PathLine ''Ring.mp4'', CreateLine (Some ''1970-01-01 00:00:00''),
         ModifyLine (Some ''1970-01-01 00:00:00''), AccessLine (Some ''1970-01-01 00:00:00'')]) \<and>
   fst (snd (modify_file_times (example_env ''Linux'') example_fs ''Ring.mp4''
       None (Some ''1970-01-01 00:00:00'') None default_format))
     = fst (snd (modify_file_times (example_env ''Linux'') example_fs ''Ring.mp4''
       None None None default_format))"
proof -
  let ?env = "example_env ''Linux''"
  let ?s = "''1970-01-01 00:00:00''"
  let ?orig = "\<lparr>create_t = 100, access_t = 200, modify_t = 300\<rparr>"
  have h1: "?s \<noteq> []" by simp
  have h2: "convert_to_timestamp ?env ?s default_format = Inr 0"
    by (simp add: convert_to_timestamp_def example_machine_defs)
  have f: "example_fs ''Ring.mp4'' = Some (Regular ?orig) \<and> os_error ?env ''Ring.mp4'' = None"
    by (simp add: example_machine_defs)
  have sys: "system ?env \<noteq> ''Windows''" by (simp add: example_env_def)
  have tt: "time_time ?env 0 = 1700000000" "time_time ?env 1 = 1700000001"
    by (simp_all add: example_env_def)
  note t = epoch_zero_treated_as_absent [where env = ?env and s = ?s and time_format = default_format
      and fs = example_fs and p = "''Ring.mp4''" and original = ?orig
      and ct = None and act = None and mt = None, OF h1 h2]
  from t f have "modify_file_times ?env example_fs ''Ring.mp4'' (Some ?s) (Some ?s) (Some ?s) default_format
     = (Inr (),
        (if system ?env = ''Windows'' then example_fs(''Ring.mp4'' \<mapsto> Regular ?orig)
         else example_fs(''Ring.mp4'' \<mapsto> Regular (?orig\<lparr>access_t := time_time ?env 0,
                                                      modify_t := time_time ?env 1\<rparr>))),
        [SuccessLine, PathLine ''Ring.mp4'', CreateLine (Some ?s), ModifyLine (Some ?s),
         AccessLine (Some ?s)])"
    by blast
  then have a: "modify_file_times ?env example_fs ''Ring.mp4'' (Some ?s) (Some ?s) (Some ?s) default_format
     = (Inr (),
        example_fs(''Ring.mp4'' \<mapsto> Regular \<lparr>create_t = 100, access_t = 1700000000,
                                              modify_t = 1700000001\<rparr>),
        [SuccessLine, PathLine ''Ring.mp4'', CreateLine (Some ?s), ModifyLine (Some ?s),
         AccessLine (Some ?s)])"
    unfolding if_not_P[OF sys] tt by simp
  from t have b: "fst (snd (modify_file_times ?env example_fs ''Ring.mp4'' None (Some ?s) None default_format))
     = fst (snd (modify_file_times ?env example_fs ''Ring.mp4'' None None None default_format))"
    by blast
  show ?thesis using h1 h2 a b by (intro conjI)
qed

end
